theory Spec2Isabelle
  imports Complex_Main
begin

section \<open>A fake 5000 Series PicoScope (gamma_spectroscopy/fake_picoscope.py)\<close>

text \<open>
  The class \<^verbatim>\<open>FakePicoScope\<close> is embedded with explicit state passing. Python integers
  are \<open>int\<close>. Python floats are idealised as \<open>real\<close>: every arithmetic operation is
  exact, rounding and overflow of binary64 are not modelled. An exception is a value
  \<open>Inl e\<close> of the result type \<open>error + 'a\<close>.
\<close>

subsection \<open>Exceptions\<close>

datatype error = AttributeError | ValueError | NotImplementedError

definition rbind :: "error + 'a \<Rightarrow> ('a \<Rightarrow> error + 'b) \<Rightarrow> error + 'b" where
  "rbind m f = (case m of Inl e \<Rightarrow> Inl e | Inr x \<Rightarrow> f x)"

text \<open>Reading an attribute that no assignment has created yet raises AttributeError.\<close>

definition getattr :: "'a option \<Rightarrow> error + 'a" where
  "getattr a = (case a of None \<Rightarrow> Inl AttributeError | Some v \<Rightarrow> Inr v)"

subsection \<open>The numpy and threading primitives the class uses\<close>

text \<open>
  \<^verbatim>\<open>2 ** k\<close> for an integer \<open>k\<close>: the integer power when \<open>k \<ge> 0\<close>, the float
  \<open>1 / 2 ** -k\<close> when \<open>k < 0\<close>.
\<close>

definition py_pow2 :: "int \<Rightarrow> real" where
  "py_pow2 k = (if 0 \<le> k then 2 ^ nat k else 1 / 2 ^ nat (- k))"

text \<open>\<^verbatim>\<open>np.arange(n)\<close>: the numbers \<open>0, ..., n - 1\<close>, none when \<open>n \<le> 0\<close>.\<close>

definition np_arange :: "int \<Rightarrow> real list" where
  "np_arange n = map real_of_int [0..n - 1]"

text \<open>
  \<^verbatim>\<open>np.ones(shape=(r, c))\<close>: an \<open>r\<close> by \<open>c\<close> array of ones, as a list of rows; a
  negative dimension raises ValueError.
\<close>

definition np_ones :: "int \<times> int \<Rightarrow> error + real list list" where
  "np_ones shape =
     (case shape of (r, c) \<Rightarrow>
        if r < 0 \<or> c < 0 then Inl ValueError
        else Inr (replicate (nat r) (replicate (nat c) 1)))"

text \<open>
  A completion callback. The default one is
  \<^verbatim>\<open>self._callback = callback_factory(self.data_is_ready)\<close>; a caller's own callback is
  opaque and is identified by a number.
\<close>

datatype callback = Default_callback | User_callback nat

text \<open>
  A \<^verbatim>\<open>threading.Timer\<close> object: its interval in seconds, its function and its
  \<^verbatim>\<open>finished\<close> event, which \<^verbatim>\<open>cancel()\<close> sets and which the timer's thread sets after the
  interval. The arguments of the function are the same three empty ctypes values for
  every timer and are left out.
\<close>

record Timer =
  interval :: real
  timer_function :: callback
  finished :: bool

subsection \<open>The object state\<close>

text \<open>
  The fields \<open>num_samples\<close>, \<open>timebase\<close> and \<open>num_captures\<close> are the attributes
  \<^verbatim>\<open>_num_samples\<close>, \<^verbatim>\<open>_timebase\<close> and \<^verbatim>\<open>_num_captures\<close>, which \<^verbatim>\<open>__init__\<close> does not
  create: \<open>None\<close> is the missing attribute. \<open>channels_enabled\<close> is the dict
  \<^verbatim>\<open>_channels_enabled\<close> in insertion order. \<open>timers\<close> is the store of the Timer objects
  created so far and \<open>timer\<close> (\<^verbatim>\<open>_timer\<close>) refers to one of them by its position.
  \<open>called\<close> logs each callback invocation with the timer that made it. The dicts
  \<^verbatim>\<open>_input_voltage_ranges\<close>, \<^verbatim>\<open>_input_offsets\<close>, \<^verbatim>\<open>_input_adc_ranges\<close> and
  \<^verbatim>\<open>_buffers\<close> are created empty and never read or written, and are left out. A
  method parameter or local variable that has the name of a field is written with a
  prime.
\<close>

record FakePicoScope =
  channels_enabled :: "(string \<times> bool) list"
  num_samples :: "int option"
  timebase :: "int option"
  num_captures :: "int option"
  data_is_ready :: bool
  timer :: "nat option"
  timers :: "Timer list"
  called :: "(nat \<times> callback) list"

definition init :: FakePicoScope where
  "init = \<lparr> channels_enabled = [(''A'', True), (''B'', True)],
            num_samples = None, timebase = None, num_captures = None,
            data_is_ready = False, timer = None, timers = [], called = [] \<rparr>"

subsection \<open>The methods\<close>

definition set_channel ::
  "string \<Rightarrow> string \<Rightarrow> real \<Rightarrow> real \<Rightarrow> bool \<Rightarrow> FakePicoScope \<Rightarrow> error + FakePicoScope" where
  "set_channel channel_name coupling_type range_value offset is_enabled self = Inr self"

definition open' :: "string option \<Rightarrow> int \<Rightarrow> FakePicoScope \<Rightarrow> error + FakePicoScope" where
  "open' serial resolution_bits self =
     rbind (set_channel ''A'' ''DC'' 1 0 False self)
       (\<lambda>self. set_channel ''B'' ''DC'' 1 0 False self)"

definition close :: "FakePicoScope \<Rightarrow> error + FakePicoScope" where
  "close self = Inr self"

definition measure' :: "int \<Rightarrow> int \<Rightarrow> int \<Rightarrow> int \<Rightarrow> FakePicoScope \<Rightarrow> error + FakePicoScope" where
  "measure' num_pre_samples num_post_samples timebase' num_captures' self =
     Inl NotImplementedError"

definition measure_adc_values ::
  "int \<Rightarrow> int \<Rightarrow> int \<Rightarrow> int \<Rightarrow> FakePicoScope \<Rightarrow> error + FakePicoScope" where
  "measure_adc_values num_pre_samples num_post_samples timebase' num_captures' self =
     Inl NotImplementedError"

definition set_up_buffers :: "int \<Rightarrow> int \<Rightarrow> FakePicoScope \<Rightarrow> error + FakePicoScope" where
  "set_up_buffers num_samples' num_captures' self = Inr self"

definition get_adc_data :: "FakePicoScope \<Rightarrow> error + FakePicoScope" where
  "get_adc_data self = Inl NotImplementedError"

definition get_interval_from_timebase :: "int \<Rightarrow> int \<Rightarrow> error + real" where
  "get_interval_from_timebase timebase' num_samples' =
     (if timebase' \<le> 3 then Inr (py_pow2 (timebase' - 1) / 500000000 * 1000000000)
      else Inr (real_of_int (timebase' - 3) / 62500000 * 1000000000))"

definition calculate_time_values :: "int \<Rightarrow> int \<Rightarrow> error + real list" where
  "calculate_time_values timebase' num_samples' =
     rbind (get_interval_from_timebase timebase' num_samples')
       (\<lambda>interval'. Inr (map (\<lambda>x. interval' * x * (1 / 1000000000)) (np_arange num_samples')))"

text \<open>The loop of \<^verbatim>\<open>get_data\<close> over the channels, appending to \<^verbatim>\<open>V_data\<close>.\<close>

fun V_data_loop ::
  "FakePicoScope \<Rightarrow> (string \<times> bool) list \<Rightarrow> error + real list list option list" where
  "V_data_loop self [] = Inr []"
| "V_data_loop self ((channel, enabled) # rest) =
     (if enabled then
        rbind (getattr (num_captures self)) (\<lambda>captures.
        rbind (getattr (num_samples self)) (\<lambda>samples.
        rbind (np_ones (captures, samples)) (\<lambda>ones.
        rbind (V_data_loop self rest) (\<lambda>V_data.
        Inr (Some (map (map (\<lambda>x. 3 / 10 * x)) ones) # V_data)))))
      else
        rbind (V_data_loop self rest) (\<lambda>V_data. Inr (None # V_data)))"

definition get_data ::
  "FakePicoScope \<Rightarrow> error + (real list \<times> real list list option list)" where
  "get_data self =
     rbind (getattr (timebase self)) (\<lambda>tb.
     rbind (getattr (num_samples self)) (\<lambda>samples.
     rbind (calculate_time_values tb samples) (\<lambda>time_values.
     rbind (V_data_loop self (channels_enabled self)) (\<lambda>V_data.
     Inr (time_values, V_data)))))"

text \<open>
  \<^verbatim>\<open>start_run\<close> stores the run, clears the event, creates a new Timer object and
  starts it. The reference \<^verbatim>\<open>_timer\<close> is overwritten; the Timer it referred to is not
  touched.
\<close>

definition start_run ::
  "int \<Rightarrow> int \<Rightarrow> int \<Rightarrow> int \<Rightarrow> callback option \<Rightarrow> FakePicoScope \<Rightarrow> error + FakePicoScope" where
  "start_run num_pre_samples num_post_samples timebase' num_captures' callback self =
     (let self = self\<lparr> num_samples := Some (num_pre_samples + num_post_samples) \<rparr>;
          self = self\<lparr> timebase := Some timebase' \<rparr>;
          self = self\<lparr> num_captures := Some num_captures' \<rparr>;
          callback = (case callback of None \<Rightarrow> Default_callback | Some c \<Rightarrow> c);
          self = self\<lparr> data_is_ready := False \<rparr>;
          self = self\<lparr> timer := Some (length (timers self)),
                        timers := timers self @
                          [\<lparr> interval = 0.5, timer_function = callback, finished = False \<rparr>] \<rparr>
      in Inr self)"

text \<open>\<^verbatim>\<open>wait_for_data\<close> returns once the event is set; \<open>None\<close> is a caller still blocked.\<close>

definition wait_for_data :: "FakePicoScope \<Rightarrow> FakePicoScope option" where
  "wait_for_data self = (if data_is_ready self then Some self else None)"

text \<open>\<^verbatim>\<open>Timer.cancel()\<close> sets the timer's \<^verbatim>\<open>finished\<close> event.\<close>

definition timer_cancel :: "nat \<Rightarrow> Timer list \<Rightarrow> Timer list" where
  "timer_cancel i ts = (if i < length ts then ts[i := (ts ! i)\<lparr> finished := True \<rparr>] else ts)"

definition stop :: "FakePicoScope \<Rightarrow> error + FakePicoScope" where
  "stop self =
     (case timer self of
        None \<Rightarrow> Inr self
      | Some i \<Rightarrow> Inr (self\<lparr> timers := timer_cancel i (timers self) \<rparr>))"

definition set_trigger ::
  "string \<Rightarrow> real \<Rightarrow> string \<Rightarrow> bool \<Rightarrow> int \<Rightarrow> real \<Rightarrow> FakePicoScope \<Rightarrow> error + FakePicoScope" where
  "set_trigger channel_name threshold direction is_enabled delay auto_trigger self = Inr self"

subsection \<open>The timer threads\<close>

text \<open>
  Modelled from the spec: \<^verbatim>\<open>callback_factory\<close> is imported from the module
  \<^verbatim>\<open>picoscope_5000a\<close>, whose source is not among the files verified here. The spec
  describes the default handler as closing over the controller's own completion signal:
  invoking it sets \<^verbatim>\<open>data_is_ready\<close>. A caller's callback does not touch the object.
\<close>

definition invoke :: "nat \<Rightarrow> callback \<Rightarrow> FakePicoScope \<Rightarrow> FakePicoScope" where
  "invoke i cb self =
     (case cb of
        Default_callback \<Rightarrow> self\<lparr> data_is_ready := True, called := called self @ [(i, cb)] \<rparr>
      | User_callback h \<Rightarrow> self\<lparr> called := called self @ [(i, cb)] \<rparr>)"

text \<open>
  \<^verbatim>\<open>Timer.run\<close> once the interval of timer \<open>i\<close> has elapsed: the function is called
  unless \<^verbatim>\<open>finished\<close> is set already, and \<^verbatim>\<open>finished\<close> is set. The step is atomic: a
  \<^verbatim>\<open>cancel()\<close> between the test and the call is not modelled.
\<close>

definition timer_run :: "nat \<Rightarrow> FakePicoScope \<Rightarrow> FakePicoScope" where
  "timer_run i self =
     (if i < length (timers self) then
        (if finished (timers self ! i) then self
         else (invoke i (timer_function (timers self ! i)) self)
                \<lparr> timers := timer_cancel i (timers self) \<rparr>)
      else self)"

subsection \<open>Sequences of calls and timer events\<close>

datatype event =
    Open "string option" int
  | Close
  | Set_channel string string real real bool
  | Measure int int int int
  | Measure_adc_values int int int int
  | Set_up_buffers int int
  | Get_adc_data
  | Get_data
  | Get_interval_from_timebase int int
  | Start_run int int int int "callback option"
  | Wait_for_data
  | Stop
  | Set_trigger string real string bool int real
  | Timer_elapsed nat

text \<open>The object after a call, whether it returned or raised.\<close>

definition after_call :: "FakePicoScope \<Rightarrow> error + FakePicoScope \<Rightarrow> FakePicoScope" where
  "after_call self r = (case r of Inl e \<Rightarrow> self | Inr self' \<Rightarrow> self')"

fun after_event :: "event \<Rightarrow> FakePicoScope \<Rightarrow> FakePicoScope" where
  "after_event (Open serial bits) self = after_call self (open' serial bits self)"
| "after_event Close self = after_call self (close self)"
| "after_event (Set_channel n c r off en) self = after_call self (set_channel n c r off en self)"
| "after_event (Measure pre post tb cap) self = after_call self (measure' pre post tb cap self)"
| "after_event (Measure_adc_values pre post tb cap) self =
     after_call self (measure_adc_values pre post tb cap self)"
| "after_event (Set_up_buffers n cap) self = after_call self (set_up_buffers n cap self)"
| "after_event Get_adc_data self = after_call self (get_adc_data self)"
| "after_event Get_data self = self"
| "after_event (Get_interval_from_timebase tb n) self = self"
| "after_event (Start_run pre post tb cap cb) self =
     after_call self (start_run pre post tb cap cb self)"
| "after_event Wait_for_data self =
     (case wait_for_data self of None \<Rightarrow> self | Some self' \<Rightarrow> self')"
| "after_event Stop self = after_call self (stop self)"
| "after_event (Set_trigger n th d en del aut) self =
     after_call self (set_trigger n th d en del aut self)"
| "after_event (Timer_elapsed i) self = timer_run i self"

definition run :: "event list \<Rightarrow> FakePicoScope \<Rightarrow> FakePicoScope" where
  "run evs self = fold after_event evs self"

section \<open>Properties\<close>

subsection \<open>Helper lemmas\<close>


lemma rbind_Inr: "rbind (Inr x) f = f x"
  by (simp add: rbind_def)


lemma length_np_arange: "length (np_arange n) = nat n"
  by (simp add: np_arange_def)

lemma nth_np_arange: "i < nat n \<Longrightarrow> np_arange n ! i = real i"
  by (simp add: np_arange_def)

lemma get_interval_from_timebase_returns:
  "\<exists>iv. get_interval_from_timebase tb n = Inr iv"
proof -
  have "\<not> isl (get_interval_from_timebase tb n)"
    by (simp add: get_interval_from_timebase_def)
  then show ?thesis by (cases "get_interval_from_timebase tb n") simp_all
qed

lemma calculate_time_values_eq:
  assumes "get_interval_from_timebase tb n = Inr iv"
  shows "calculate_time_values tb n =
           Inr (map (\<lambda>x. iv * x * (1 / 1000000000)) (np_arange n))"
  using assms by (simp add: calculate_time_values_def rbind_Inr)

lemma V_data_loop_eq:
  assumes "num_captures self = Some c" and "num_samples self = Some n"
    and "0 \<le> c" and "0 \<le> n"
  shows "V_data_loop self chs =
           Inr (map (\<lambda>ch. if snd ch then Some (replicate (nat c) (replicate (nat n) (3 / 10)))
                           else None) chs)"
proof (induction chs)
  case Nil
  show ?case by simp
next
  case (Cons ch chs)
  obtain name enabled where ch: "ch = (name, enabled)" by (cases ch)
  show ?case
    using assms Cons.IH
    by (simp add: ch getattr_def np_ones_def rbind_Inr)
qed

lemma get_data_eq:
  assumes "timebase self = Some tb" and "num_samples self = Some n"
    and "num_captures self = Some c" and "0 \<le> n" and "0 \<le> c"
    and "get_interval_from_timebase tb n = Inr iv"
  shows "get_data self =
           Inr (map (\<lambda>x. iv * x * (1 / 1000000000)) (np_arange n),
                map (\<lambda>ch. if snd ch then Some (replicate (nat c) (replicate (nat n) (3 / 10)))
                           else None) (channels_enabled self))"
  using assms
  by (simp add: get_data_def getattr_def rbind_Inr calculate_time_values_eq
        V_data_loop_eq [where c = c and n = n])






lemma start_run_eq:
  "start_run pre post tb c cb self =
     Inr (self\<lparr> num_samples := Some (pre + post), timebase := Some tb, num_captures := Some c,
                data_is_ready := False, timer := Some (length (timers self)),
                timers := timers self @
                  [\<lparr> interval = 0.5,
                     timer_function = (case cb of None \<Rightarrow> Default_callback | Some f \<Rightarrow> f),
                     finished = False \<rparr>] \<rparr>)"
  by (simp add: start_run_def Let_def)

lemma timer_cancel_idem: "timer_cancel i (timer_cancel i ts) = timer_cancel i ts"
  by (simp add: timer_cancel_def)

lemma stop_eq:
  "stop self = Inr (case timer self of None \<Rightarrow> self
                    | Some i \<Rightarrow> self\<lparr> timers := timer_cancel i (timers self) \<rparr>)"
  by (simp add: stop_def split: option.split)


lemma run_Nil: "run [] self = self"
  by (simp add: run_def)

lemma run_Cons: "run (e # evs) self = run evs (after_event e self)"
  by (simp add: run_def)








subsection \<open>The sampling interval\<close>






text \<open>
  C8, as stated: a negative number of samples makes \<^verbatim>\<open>get_interval_from_timebase\<close>
  fail. The parameter is never read: timebase 4 with \<open>-1\<close> samples returns 16 ns.
\<close>

theorem negative_num_samples_counterexample:
  "get_interval_from_timebase 4 (- 1) = Inr 16"
  by (simp add: get_interval_from_timebase_def)

text \<open>
  C8, amended: \<^verbatim>\<open>get_interval_from_timebase\<close> never fails because of the number of
  samples; for every timebase the returned interval is the same for every number of
  samples, negative or not.
\<close>

theorem num_samples_ignored:
  "get_interval_from_timebase tb n = get_interval_from_timebase tb m
   \<and> \<not> isl (get_interval_from_timebase tb n)"
  by (simp add: get_interval_from_timebase_def)

subsection \<open>The data returned by get_data\<close>

text \<open>
  C4: after a run started with timebase \<open>tb\<close> and \<open>pre + post\<close> samples in total,
  \<^verbatim>\<open>get_data\<close> returns time values of length \<open>pre + post\<close> whose element \<open>i\<close> is
  the interval of the timebase in nanoseconds times \<open>i\<close> times \<open>1e-9\<close>. The run has
  the counts of a run configuration: a total number of samples and a number of captures
  that are not negative.
\<close>

theorem get_data_time_values:
  assumes "start_run pre post tb c cb self0 = Inr self"
    and "0 \<le> pre + post" and "0 \<le> c"
    and "get_interval_from_timebase tb (pre + post) = Inr iv"
  shows "\<exists>time_values V_data. get_data self = Inr (time_values, V_data)
           \<and> length time_values = nat (pre + post)
           \<and> (\<forall>i < nat (pre + post). time_values ! i = iv * real i * (1 / 1000000000))"
proof -
  from assms(1) have tb: "timebase self = Some tb" and n: "num_samples self = Some (pre + post)"
    and c: "num_captures self = Some c"
    by (auto simp add: start_run_eq)
  show ?thesis
    using get_data_eq [OF tb n c assms(2) assms(3) assms(4)]
    by (simp add: length_np_arange nth_np_arange)
qed

text \<open>
  The example of C4: after \<^verbatim>\<open>start_run(10, 90, 4, 2)\<close> the time values are the 100
  numbers \<open>0, 16e-9, 32e-9, ...\<close>.
\<close>

theorem get_data_time_values_witness:
  "\<exists>self V_data. start_run 10 90 4 2 None init = Inr self
     \<and> get_data self = Inr (map (\<lambda>i. 16 * real i * (1 / 1000000000)) [0..<100], V_data)"
proof -
  obtain self where s: "start_run 10 90 4 2 None init = Inr self"
    by (simp add: start_run_eq)
  have iv: "get_interval_from_timebase 4 (10 + 90) = Inr 16"
    by (simp add: get_interval_from_timebase_def)
  have n: "(0::int) \<le> 10 + 90" and c: "(0::int) \<le> 2" by simp_all
  from get_data_time_values [OF s n c iv]
  obtain tv V where g: "get_data self = Inr (tv, V)" and l: "length tv = 100"
    and e: "\<forall>i<100. tv ! i = 16 * real i * (1 / 1000000000)"
    by auto
  have "tv = map (\<lambda>i. 16 * real i * (1 / 1000000000)) [0..<100]"
    using l e by (intro nth_equalityI) simp_all
  with s g show ?thesis by blast
qed

text \<open>
  C5: after a run with \<open>c\<close> captures and \<open>pre + post\<close> samples, \<^verbatim>\<open>get_data\<close> has one
  entry for each channel of \<^verbatim>\<open>_channels_enabled\<close>, in order: for an enabled channel
  \<open>c\<close> rows of \<open>pre + post\<close> times the value 0.3, for a disabled channel \<open>None\<close>.
  The object the run is started on may hold any channel dict.
\<close>

theorem get_data_V_data:
  assumes "start_run pre post tb c cb self0 = Inr self"
    and "0 \<le> pre + post" and "0 \<le> c"
  shows "\<exists>time_values V_data. get_data self = Inr (time_values, V_data)
           \<and> length V_data = length (channels_enabled self0)
           \<and> (\<forall>i < length (channels_enabled self0).
                 V_data ! i =
                   (if snd (channels_enabled self0 ! i)
                    then Some (replicate (nat c) (replicate (nat (pre + post)) (3 / 10)))
                    else None))"
proof -
  from assms(1) have tb: "timebase self = Some tb" and n: "num_samples self = Some (pre + post)"
    and c: "num_captures self = Some c" and chs: "channels_enabled self = channels_enabled self0"
    by (auto simp add: start_run_eq)
  obtain iv where "get_interval_from_timebase tb (pre + post) = Inr iv"
    using get_interval_from_timebase_returns by blast
  from get_data_eq [OF tb n c assms(2) assms(3) this]
  show ?thesis by (simp add: chs)
qed

text \<open>
  An object whose channel B is disabled: two rows of three samples for A, \<open>None\<close>
  for B.
\<close>

theorem get_data_V_data_witness:
  "\<exists>self time_values.
     start_run 1 2 4 2 None (init\<lparr> channels_enabled := [(''A'', True), (''B'', False)] \<rparr>) = Inr self
     \<and> get_data self =
         Inr (time_values, [Some [[3 / 10, 3 / 10, 3 / 10], [3 / 10, 3 / 10, 3 / 10]], None])"
proof -
  let ?self0 = "init\<lparr> channels_enabled := [(''A'', True), (''B'', False)] \<rparr>"
  obtain self where s: "start_run 1 2 4 2 None ?self0 = Inr self"
    by (simp add: start_run_eq)
  have n: "(0::int) \<le> 1 + 2" and c: "(0::int) \<le> 2" by simp_all
  from get_data_V_data [OF s n c]
  obtain tv V where g: "get_data self = Inr (tv, V)" and l: "length V = 2"
    and e: "\<forall>i<2. V ! i = (if snd ([(''A'', True), (''B'', False)] ! i)
                 then Some (replicate (nat 2) (replicate (nat (1 + 2)) (3 / 10))) else None)"
    by auto
  from e have "V ! 0 = Some [[3 / 10, 3 / 10, 3 / 10], [3 / 10, 3 / 10, 3 / 10]]"
    by (simp add: numeral_2_eq_2 numeral_3_eq_3)
  moreover from e have "V ! 1 = None" by simp
  ultimately have "V = [Some [[3 / 10, 3 / 10, 3 / 10], [3 / 10, 3 / 10, 3 / 10]], None]"
    using l by (intro nth_equalityI) (auto simp add: less_2_cases_iff)
  with s g show ?thesis by blast
qed




subsection \<open>Starting and stopping a run\<close>

text \<open>
  C6, as stated: \<^verbatim>\<open>start_run\<close> fails and leaves the object unchanged when a count
  is out of range. With \<open>-1\<close> pre-trigger samples, no post-trigger samples and no
  captures it returns, and the run is stored and a timer started.
\<close>

theorem start_run_invalid_counterexample:
  "start_run (- 1) 0 4 0 None init =
     Inr (init\<lparr> num_samples := Some (- 1), timebase := Some 4, num_captures := Some 0,
                timer := Some 0,
                timers := [\<lparr> interval = 0.5, timer_function = Default_callback,
                             finished = False \<rparr>] \<rparr>)"
  by (simp add: start_run_eq init_def)

text \<open>
  C6, amended: \<^verbatim>\<open>start_run\<close> checks none of its arguments: for every configuration,
  whether the counts are in range or not, it returns, stores the total number of
  samples, the timebase and the number of captures, clears \<^verbatim>\<open>data_is_ready\<close> and starts
  a new timer.
\<close>

theorem start_run_always_succeeds:
  "\<exists>self'. start_run pre post tb c cb self = Inr self'
     \<and> num_samples self' = Some (pre + post) \<and> timebase self' = Some tb
     \<and> num_captures self' = Some c \<and> data_is_ready self' = False
     \<and> timer self' = Some (length (timers self))
     \<and> length (timers self') = Suc (length (timers self))
     \<and> finished (timers self' ! length (timers self)) = False"
  by (simp add: start_run_eq)

text \<open>
  C9: \<^verbatim>\<open>stop\<close> returns in every state, a second call changes nothing, any number of
  calls in a row leaves the state of the first one, and \<^verbatim>\<open>data_is_ready\<close> is what it
  was: a set event stays set.
\<close>

theorem stop_never_raises:
  "\<exists>self'. stop self = Inr self' \<and> stop self' = Inr self'
     \<and> data_is_ready self' = data_is_ready self
     \<and> (\<forall>n. run (replicate (Suc n) Stop) self = self')"
proof -
  define self' where "self' = (case timer self of None \<Rightarrow> self
                    | Some i \<Rightarrow> self\<lparr> timers := timer_cancel i (timers self) \<rparr>)"
  have 1: "stop self = Inr self'" by (simp add: stop_eq self'_def)
  have 2: "stop self' = Inr self'"
    by (simp add: stop_eq self'_def timer_cancel_idem split: option.split)
  have 3: "data_is_ready self' = data_is_ready self"
    by (simp add: self'_def split: option.split)
  have fp: "run (replicate n Stop) self' = self'" for n
    by (induction n) (simp_all add: run_def after_call_def 2)
  have 4: "run (replicate (Suc n) Stop) self = self'" for n
  proof -
    have "run (replicate (Suc n) Stop) self = run (replicate n Stop) self'"
      by (simp add: run_def after_call_def 1)
    then show ?thesis by (simp add: fp)
  qed
  from 1 2 3 4 show ?thesis by blast
qed

text \<open>
  C1: a second \<^verbatim>\<open>start_run\<close> before the first timer has elapsed. The claim is that the
  callback of the first run is never called. \<^verbatim>\<open>start_run\<close> replaces the reference
  \<^verbatim>\<open>_timer\<close> and does not cancel the timer it referred to: when the first timer elapses
  the first callback is called, also after a later \<^verbatim>\<open>stop\<close>, which reaches the second
  timer only; with the default callback the first timer sets \<^verbatim>\<open>data_is_ready\<close> for the
  second run. With \<^verbatim>\<open>stop\<close> before the second \<^verbatim>\<open>start_run\<close> the first callback is not
  called.
\<close>

theorem superseded_run_fires:
  "called (run [Start_run 10 90 4 2 (Some (User_callback 1)),
                Start_run 10 90 4 2 (Some (User_callback 2)),
                Timer_elapsed 0] init) = [(0, User_callback 1)]
   \<and> called (run [Start_run 10 90 4 2 (Some (User_callback 1)),
                Start_run 10 90 4 2 (Some (User_callback 2)),
                Stop, Timer_elapsed 0] init) = [(0, User_callback 1)]
   \<and> data_is_ready (run [Start_run 10 90 4 2 None, Start_run 10 90 4 2 None,
                Timer_elapsed 0] init) = True
   \<and> called (run [Start_run 10 90 4 2 (Some (User_callback 1)), Stop,
                Start_run 10 90 4 2 (Some (User_callback 2)),
                Timer_elapsed 0] init) = []"
  by (simp add: run_Cons run_Nil after_call_def start_run_eq stop_eq init_def timer_run_def
        invoke_def timer_cancel_def)

subsection \<open>The enabled channels\<close>



end
